theory Spec2Isabelle
  imports Main "HOL-Library.Signed_Division"
begin

section \<open>Data model (main.go, lines 12-52)\<close>

text \<open>
  The three JSON structs of \<^verbatim>\<open>main.go\<close> become records with the fields of the source.
  Go's \<^verbatim>\<open>int\<close> and \<^verbatim>\<open>int64\<close> fields are HOL integers: the program only compares them,
  prints them and divides \<^verbatim>\<open>TestTime\<close> by 1000, so no operation on them can overflow.
  Fields of the same name in two structs (\<^verbatim>\<open>Status\<close>, \<^verbatim>\<open>StatusMessage\<close>,
  \<^verbatim>\<open>CriteriaVersion\<close>) are told apart by the record's name, as in \<open>Host.Status h\<close>.
\<close>

record Info =
  Version :: string
  CriteriaVersion :: string
  MaxAssessments :: int
  CurrentAssessments :: int
  NewAssessmentCoolOff :: int
  Messages :: "string list"

record Endpoint =
  IpAddress :: string
  ServerName :: string
  StatusMessage :: string
  StatusDetails :: string
  Grade :: string
  GradeTrustIgnored :: string
  HasWarnings :: bool
  Progress :: int
  Duration :: int
  Eta :: int

record Host =
  Host :: string
  Port :: int
  Protocol :: string
  IsPublic :: bool
  Status :: string
  StatusMessage :: string
  StartTime :: int
  TestTime :: int
  EngineVersion :: string
  CriteriaVersion :: string
  Endpoints :: "Endpoint list"

text \<open>
  What \<^verbatim>\<open>net/http\<close> hands back. \<^verbatim>\<open>client.Get(url)\<close> returns an error (its message, \<open>Inl\<close>)
  or a response; \<^verbatim>\<open>io.ReadAll(resp.Body)\<close> returns an error or the bytes of the body.
\<close>

record Response =
  StatusCode :: int
  Status :: string
  Body :: "string + string"

type_synonym reply = "string + Response"

text \<open>
  The HTTP client is the only way the program touches the remote service. It is a
  parameter of the model: a function from the requested URL and the state \<open>'w\<close> of the
  outside world to the reply and the next state. Nothing is assumed about it.
\<close>

type_synonym 'w transport = "string \<Rightarrow> 'w \<Rightarrow> reply \<times> 'w"

record 'w SSLClient =
  baseurl :: string
  client :: "'w transport"

definition NewSSLClient :: "'w transport \<Rightarrow> 'w SSLClient" where
  "NewSSLClient http = \<lparr>baseurl = ''https://api.ssllabs.com/api/v2'', client = http\<rparr>"

text \<open>
  Library functions the program calls and the repository does not contain:
  \<^verbatim>\<open>json.Unmarshal\<close> into an \<^verbatim>\<open>Info\<close> and into a \<^verbatim>\<open>Host\<close> (an error message or the
  decoded struct), and \<^verbatim>\<open>time.Unix(sec, 0).Format("2006-01-02 15:04:05")\<close>, which renders
  a number of seconds since the epoch in the machine's local time zone.
\<close>

record Lib =
  unmarshal_Info :: "string \<Rightarrow> string + Info"
  unmarshal_Host :: "string \<Rightarrow> string + Host"
  format_local :: "int \<Rightarrow> string"

section \<open>Formatting (\<^verbatim>\<open>fmt\<close> verbs used by the program)\<close>

definition digit :: "int \<Rightarrow> char" where
  "digit d = ''0123456789'' ! nat d"

function digits :: "int \<Rightarrow> string" where
  "digits n = (if n < 10 then [digit n] else digits (n div 10) @ [digit (n mod 10)])"
  by pat_completeness auto
termination
  by (relation "measure nat") auto

declare digits.simps [simp del]

definition fmt_d :: "int \<Rightarrow> string" where
  \<comment> \<open>the verb \<^verbatim>\<open>%d\<close>\<close>
  "fmt_d k = (if k < 0 then CHR ''-'' # digits (- k) else digits k)"

definition fmt_t :: "bool \<Rightarrow> string" where
  \<comment> \<open>the verb \<^verbatim>\<open>%t\<close>\<close>
  "fmt_t b = (if b then ''true'' else ''false'')"

section \<open>Transport operations (main.go, lines 60-135)\<close>

definition info_url :: "'w SSLClient \<Rightarrow> string" where
  "info_url s = baseurl s @ ''/info''"

definition CheckApiStatus :: "Lib \<Rightarrow> 'w SSLClient \<Rightarrow> 'w \<Rightarrow> (string + Info) \<times> string \<times> 'w" where
  \<comment> \<open>result, text printed, world after the call\<close>
  "CheckApiStatus lib s w =
     (case client s (info_url s) w of
        (Inl err, w') \<Rightarrow> (Inl (''failed to reach SSL Labs API: '' @ err), [], w')
      | (Inr resp, w') \<Rightarrow>
          if StatusCode resp \<noteq> 200
          then (Inl (''API returned non-OK status: '' @ Response.Status resp), [], w')
          else (case Body resp of
                  Inl err \<Rightarrow> (Inl (''failed to read API response: '' @ err), [], w')
                | Inr body \<Rightarrow>
                    (case unmarshal_Info lib body of
                       Inl err \<Rightarrow> (Inl (''failed to parse API response: '' @ err), [], w')
                     | Inr info \<Rightarrow>
                         (Inr info,
                          ''SSL Labs API is reachable.\<newline>'' @
                          ''Criteria Version: '' @ Info.CriteriaVersion info @ ''\<newline>'' @
                          ''Concurrent assessments allowed: '' @ fmt_d (MaxAssessments info) @ ''\<newline>'' @
                          ''Current assessments: '' @ fmt_d (CurrentAssessments info) @ ''\<newline>'',
                          w'))))"

definition start_url :: "'w SSLClient \<Rightarrow> string \<Rightarrow> bool \<Rightarrow> string" where
  \<comment> \<open>lines 92-96\<close>
  "start_url s domain publish =
     (let url = baseurl s @ ''/analyze?host='' @ domain @ ''&all=done&startNew=on''
      in if publish then url @ ''&publish=on'' else url)"

definition StartAssessment ::
  "Lib \<Rightarrow> 'w SSLClient \<Rightarrow> string \<Rightarrow> bool \<Rightarrow> 'w \<Rightarrow> (string + Host) \<times> 'w" where
  "StartAssessment lib s domain publish w =
     (case client s (start_url s domain publish) w of
        (Inl err, w') \<Rightarrow> (Inl (''failed to start assessment: '' @ err), w')
      | (Inr resp, w') \<Rightarrow>
          (case Body resp of
             Inl err \<Rightarrow> (Inl (''failed to read assessment response: '' @ err), w')
           | Inr body \<Rightarrow>
               (case unmarshal_Host lib body of
                  Inl err \<Rightarrow> (Inl (''failed to parse assessment response: '' @ err), w')
                | Inr host \<Rightarrow> (Inr host, w'))))"

definition check_url :: "'w SSLClient \<Rightarrow> string \<Rightarrow> string" where
  \<comment> \<open>line 117\<close>
  "check_url s domain = baseurl s @ ''/analyze?host='' @ domain @ ''&all=done''"

definition CheckAssessmentStatus ::
  "Lib \<Rightarrow> 'w SSLClient \<Rightarrow> string \<Rightarrow> 'w \<Rightarrow> (string + Host) \<times> 'w" where
  "CheckAssessmentStatus lib s domain w =
     (case client s (check_url s domain) w of
        (Inl err, w') \<Rightarrow> (Inl (''failed to check assessment status: '' @ err), w')
      | (Inr resp, w') \<Rightarrow>
          (case Body resp of
             Inl err \<Rightarrow> (Inl (''failed to read assessment status response: '' @ err), w')
           | Inr body \<Rightarrow>
               (case unmarshal_Host lib body of
                  Inl err \<Rightarrow> (Inl (''failed to parse assessment status response: '' @ err), w')
                | Inr host \<Rightarrow> (Inr host, w'))))"

section \<open>The polling loop (main.go, lines 136-170)\<close>

text \<open>
  Indexing a Go slice out of range panics with
  \<^verbatim>\<open>index out of range [i] with length n\<close>; the model returns the panic as a value.
\<close>

datatype panic = IndexOutOfRange nat nat

definition index :: "'a list \<Rightarrow> nat \<Rightarrow> panic + 'a" where
  "index xs i = (if i < length xs then Inr (xs ! i) else Inl (IndexOutOfRange i (length xs)))"

definition progress_line :: "Host \<Rightarrow> Endpoint \<Rightarrow> string" where
  \<comment> \<open>the \<^verbatim>\<open>Printf\<close> of lines 151 and 162\<close>
  "progress_line host e =
     ''      '' @ IpAddress e @ '':'' @ fmt_d (Port host) @ '' - '' @ fmt_d (Progress e) @ ''%\<newline>''"

definition progress_header :: "nat \<Rightarrow> string" where
  \<comment> \<open>the \<^verbatim>\<open>Printf\<close> of line 157\<close>
  "progress_header endpoint =
     ''\<newline>----- PROGRESS ON ENDPOINT '' @ fmt_d (int endpoint) @ '' ----- \<newline>''"

text \<open>
  The loop's variables \<^verbatim>\<open>i\<close>, \<^verbatim>\<open>endpoint\<close> and \<^verbatim>\<open>flag\<close> form the cursor. They start at
  0, 1 and false and only ever grow by one, so they are natural numbers here.
\<close>

type_synonym cursor = "nat \<times> nat \<times> bool"

text \<open>
  Lines 149-161: the guarded block. The right operand of \<^verbatim>\<open>||\<close> on line 149 is evaluated
  only when \<^verbatim>\<open>flag\<close> is true; line 150 indexes \<^verbatim>\<open>host.Endpoints[i]\<close> whenever the block is
  entered. The result is a panic, or the new cursor with the text printed.
\<close>

definition track_block :: "Host \<Rightarrow> cursor \<Rightarrow> panic + cursor \<times> string" where
  "track_block host c =
     (case c of (i, endpoint, flg) \<Rightarrow>
        (case (if \<not> flg then Inr True
               else (case index (Endpoints host) i of
                       Inl p \<Rightarrow> Inl p
                     | Inr e \<Rightarrow> Inr (Progress e = 100))) of
           Inl p \<Rightarrow> Inl p
         | Inr False \<Rightarrow> Inr ((i, endpoint, flg), [])
         | Inr True \<Rightarrow>
             (case index (Endpoints host) i of
                Inl p \<Rightarrow> Inl p
              | Inr e \<Rightarrow>
                  (let (i1, o1) =
                         (if Progress e = 100
                          then (if i + 1 < length (Endpoints host) then i + 1 else i,
                                progress_line host e)
                          else (i, []));
                       (endpoint1, o2) =
                         (if endpoint < length (Endpoints host) + 1
                          then (endpoint + 1, progress_header endpoint)
                          else (endpoint, []))
                   in Inr ((i1, endpoint1, True), o1 @ o2)))))"

text \<open>
  One pass over lines 149-162 for a freshly polled snapshot: the guarded block, then the
  unconditional \<^verbatim>\<open>Printf\<close> of line 162, which indexes \<^verbatim>\<open>host.Endpoints[i]\<close> again. The
  text is what was printed, also when the pass ends in a panic.
\<close>

definition track :: "Host \<Rightarrow> cursor \<Rightarrow> (panic + cursor) \<times> string" where
  "track host c =
     (case track_block host c of
        Inl p \<Rightarrow> (Inl p, [])
      | Inr ((i, endpoint, flg), out) \<Rightarrow>
          (case index (Endpoints host) i of
             Inl p \<Rightarrow> (Inl p, out)
           | Inr e \<Rightarrow> (Inr (i, endpoint, flg), out @ progress_line host e)))"

text \<open>
  How a call ends: it returns a value, it panics, or (for the polling loop, which the
  source bounds by nothing) it is still running when the fuel given to the model is used
  up. One unit of fuel is one iteration of the \<^verbatim>\<open>for\<close> loop. The 10 second sleep between
  iterations has no effect on the values and is left out.
\<close>

datatype 'a outcome = Done 'a | Panicked panic | Unfinished

fun poll_loop ::
  "Lib \<Rightarrow> 'w SSLClient \<Rightarrow> string \<Rightarrow> nat \<Rightarrow> cursor \<Rightarrow> 'w \<Rightarrow> (string + Host) outcome \<times> string \<times> 'w"
where
  "poll_loop lib s domain 0 c w = (Unfinished, [], w)"
| "poll_loop lib s domain (Suc fuel) c w =
     (case CheckAssessmentStatus lib s domain w of
        (Inl err, w') \<Rightarrow> (Done (Inl (''failed to check assessment status: '' @ err)), [], w')
      | (Inr host, w') \<Rightarrow>
          (case track host c of
             (Inl p, out) \<Rightarrow> (Panicked p, out, w')
           | (Inr c', out) \<Rightarrow>
               if Host.Status host = ''READY'' \<or> Host.Status host = ''ERROR''
               then (Done (Inr host), out @ ''\<newline>'', w')
               else (case poll_loop lib s domain fuel c' w' of
                       (r, out', w'') \<Rightarrow> (r, out @ out', w''))))"

definition WaitForAssessment ::
  "Lib \<Rightarrow> 'w SSLClient \<Rightarrow> nat \<Rightarrow> string \<Rightarrow> 'w \<Rightarrow> (string + Host) outcome \<times> string \<times> 'w" where
  "WaitForAssessment lib s fuel domain w =
     (case poll_loop lib s domain fuel (0, 1, False) w of
        (r, out, w') \<Rightarrow> (r, ''Waiting for assessment to complete...\<newline>'' @ out, w'))"

section \<open>The renderer (main.go, lines 171-194)\<close>

fun display_endpoints :: "nat \<Rightarrow> Endpoint list \<Rightarrow> string" where
  \<comment> \<open>the \<^verbatim>\<open>range\<close> loop of lines 182-189, from index \<open>i\<close> on\<close>
  "display_endpoints i [] = []"
| "display_endpoints i (endpoint # rest) =
     ''Endpoint '' @ fmt_d (int i + 1) @ '':\<newline>'' @
     ''  IP Address: '' @ IpAddress endpoint @ ''\<newline>'' @
     ''  Grade: '' @ Grade endpoint @ ''\<newline>'' @
     ''  Status Message: '' @ Endpoint.StatusMessage endpoint @ ''\<newline>'' @
     ''  Has Warnings: '' @ fmt_t (HasWarnings endpoint) @ ''\<newline>'' @
     ''\<newline>'' @
     display_endpoints (i + 1) rest"

definition displayResults :: "Lib \<Rightarrow> Host \<Rightarrow> string" where
  "displayResults lib host =
     ''Assessment Results:\<newline>'' @
     ''Domain: '' @ Host host @ ''\<newline>'' @
     ''Status: '' @ Host.Status host @ ''\<newline>'' @
     (if Host.Status host = ''READY''
      then ''Test completed: '' @ format_local lib (TestTime host sdiv 1000) @ ''\<newline>'' @
           display_endpoints 0 (Endpoints host)
      else if Host.Status host = ''ERROR''
      then ''Assessment failed: '' @ Host.StatusMessage host @ ''\<newline>''
      else [])"

section \<open>The orchestrator (main.go, lines 195-242)\<close>

text \<open>
  \<^verbatim>\<open>main\<close> after \<^verbatim>\<open>flag.Parse()\<close>: the arguments are the values of the three flags. The
  result is the exit code (\<^verbatim>\<open>os.Exit(n)\<close>, or 0 when \<^verbatim>\<open>main\<close> returns), the text written
  to standard output, and the world after the last HTTP call.
  \<^verbatim>\<open>flag.PrintDefaults\<close> writes to standard error and adds nothing to the text.
\<close>

definition main ::
  "Lib \<Rightarrow> 'w transport \<Rightarrow> nat \<Rightarrow> string \<Rightarrow> bool \<Rightarrow> bool \<Rightarrow> 'w \<Rightarrow> int outcome \<times> string \<times> 'w" where
  "main lib http fuel domain publish help w =
     (if help \<or> domain = []
      then (Done 0, ''SSL Labs API Checker\<newline>'' @ ''Usage:\<newline>'', w)
      else
        (let sslClient = NewSSLClient http in
         case CheckApiStatus lib sslClient w of
           (Inl err, o1, w1) \<Rightarrow> (Done 1, o1 @ ''Error: '' @ err @ ''\<newline>'', w1)
         | (Inr info, o1, w1) \<Rightarrow>
             if CurrentAssessments info \<ge> MaxAssessments info
             then (Done 1,
                   o1 @ ''Maximum number of concurrent assessments reached. Please try again later.\<newline>'',
                   w1)
             else
               (let o2 = o1 @ ''Checking SSL/TLS for domain: '' @ domain @ ''\<newline>'' @
                              ''Starting Assessment ....\<newline>'' in
                case StartAssessment lib sslClient domain publish w1 of
                  (Inl err, w2) \<Rightarrow>
                    (Done 1, o2 @ ''Error starting assessment: '' @ err @ ''\<newline>'', w2)
                | (Inr host, w2) \<Rightarrow>
                    (let o3 = o2 @ ''Assessment started for '' @ Host host @ ''\<newline>'' in
                     if Host.Status host \<noteq> ''READY'' \<and> Host.Status host \<noteq> ''ERROR''
                     then
                       (case WaitForAssessment lib sslClient fuel domain w2 of
                          (Done (Inl err), o4, w3) \<Rightarrow>
                            (Done 1, o3 @ o4 @ ''Error waiting for assessment: '' @ err @ ''\<newline>'', w3)
                        | (Done (Inr host'), o4, w3) \<Rightarrow>
                            (Done 0, o3 @ o4 @ displayResults lib host', w3)
                        | (Panicked p, o4, w3) \<Rightarrow> (Panicked p, o3 @ o4, w3)
                        | (Unfinished, o4, w3) \<Rightarrow> (Unfinished, o3 @ o4, w3))
                     else (Done 0, o3 @ displayResults lib host, w2)))))"

section \<open>A scripted service, for running the model on concrete inputs\<close>

text \<open>
  A world that answers the successive requests from a fixed list of replies and records
  every URL requested. When the list is used up the request fails, as a timed-out
  connection does.
\<close>

type_synonym script = "reply list \<times> string list"

definition scripted :: "script transport" where
  "scripted url w =
     (case w of
        (r # rs, log) \<Rightarrow> (r, (rs, log @ [url]))
      | ([], log) \<Rightarrow> (Inl ''context deadline exceeded'', ([], log @ [url])))"

definition http_reply :: "int \<Rightarrow> string \<Rightarrow> string \<Rightarrow> reply" where
  "http_reply code status body = Inr \<lparr>StatusCode = code, Status = status, Body = Inr body\<rparr>"

text \<open>
  Sample payloads with the structs \<^verbatim>\<open>encoding/json\<close> decodes them to: a key the struct
  does not name is ignored and a field the payload does not name keeps its zero value.
\<close>

definition zero_Host :: Host where
  "zero_Host =
     \<lparr>Host = [], Port = 0, Protocol = [], IsPublic = False, Status = [], StatusMessage = [],
      StartTime = 0, TestTime = 0, EngineVersion = [], CriteriaVersion = [], Endpoints = []\<rparr>"

definition zero_Endpoint :: Endpoint where
  "zero_Endpoint =
     \<lparr>IpAddress = [], ServerName = [], StatusMessage = [], StatusDetails = [], Grade = [],
      GradeTrustIgnored = [], HasWarnings = False, Progress = 0, Duration = 0, Eta = 0\<rparr>"

definition info_body :: "int \<Rightarrow> int \<Rightarrow> string" where
  \<open>info_body mx cur =
     ''{"criteriaVersion":"2009q","maxAssessments":'' @ fmt_d mx @
     '',"currentAssessments":'' @ fmt_d cur @ ''}''\<close>

definition info_of :: "int \<Rightarrow> int \<Rightarrow> Info" where
  "info_of mx cur =
     \<lparr>Version = [], CriteriaVersion = ''2009q'', MaxAssessments = mx, CurrentAssessments = cur,
      NewAssessmentCoolOff = 0, Messages = []\<rparr>"

definition errors_body :: string where
  \<open>errors_body = ''{"errors":[{"message":"Running at full capacity. Please try again later."}]}''\<close>

definition dns_body :: string where
  \<open>dns_body = ''{"host":"example.com","port":443,"status":"DNS","statusMessage":"Resolving domain names"}''\<close>

definition dns_host :: Host where
  "dns_host = zero_Host\<lparr>Host := ''example.com'', Port := 443, Host.Status := ''DNS'',
                         Host.StatusMessage := ''Resolving domain names''\<rparr>"

definition error_body :: string where
  \<open>error_body = ''{"host":"example.com","port":443,"status":"ERROR","statusMessage":"Unable to resolve domain name"}''\<close>

definition error_host :: Host where
  "error_host = zero_Host\<lparr>Host := ''example.com'', Port := 443, Host.Status := ''ERROR'',
                           Host.StatusMessage := ''Unable to resolve domain name''\<rparr>"

definition ready_body :: string where
  \<open>ready_body = ''{"host":"example.com","port":443,"status":"READY","testTime":1500000000999,"endpoints":[{"ipAddress":"93.184.216.34","statusMessage":"Ready","grade":"A","hasWarnings":false,"progress":100}]}''\<close>

definition ready_host :: Host where
  "ready_host =
     zero_Host\<lparr>Host := ''example.com'', Port := 443, Host.Status := ''READY'', TestTime := 1500000000999,
               Endpoints := [zero_Endpoint\<lparr>IpAddress := ''93.184.216.34'',
                                           Endpoint.StatusMessage := ''Ready'',
                                           Grade := ''A'', Progress := 100\<rparr>]\<rparr>"

definition running_body :: string where
  \<open>running_body = ''{"host":"example.com","port":443,"status":"IN_PROGRESS","endpoints":[{"ipAddress":"93.184.216.34","statusMessage":"In progress","progress":40}]}''\<close>

definition running_host :: Host where
  "running_host =
     zero_Host\<lparr>Host := ''example.com'', Port := 443, Host.Status := ''IN_PROGRESS'',
               Endpoints := [zero_Endpoint\<lparr>IpAddress := ''93.184.216.34'',
                                           Endpoint.StatusMessage := ''In progress'', Progress := 40\<rparr>]\<rparr>"

definition sample_hosts :: "(string \<times> Host) list" where
  "sample_hosts =
     [(errors_body, zero_Host), (dns_body, dns_host), (error_body, error_host),
      (ready_body, ready_host), (running_body, running_host)]"

definition sample_lib :: Lib where
  "sample_lib =
     \<lparr>unmarshal_Info =
        (\<lambda>body. if body = info_body 25 0 then Inr (info_of 25 0)
                else if body = info_body 20 20 then Inr (info_of 20 20)
                else Inl ''unexpected end of JSON input''),
      unmarshal_Host =
        (\<lambda>body. case map_of sample_hosts body of
                  Some host \<Rightarrow> Inr host
                | None \<Rightarrow> Inl ''unexpected end of JSON input''),
      format_local = (\<lambda>sec. ''epoch+'' @ fmt_d sec @ ''s'')\<rparr>"

section \<open>Reading a URL's query string\<close>

text \<open>
  What a request carries as query parameters, as the receiving server splits the URL
  (RFC 3986): the fragment starts at the first \<open>#\<close>, the query is what follows the first
  \<open>?\<close> before it, the parameters are separated by \<open>&\<close>, and each is cut into key and
  value at its first \<open>=\<close>. Keys and values are the raw text, not percent-decoded.
\<close>

fun split_on :: "char \<Rightarrow> string \<Rightarrow> string list" where
  "split_on c [] = [[]]"
| "split_on c (x # xs) =
     (if x = c then [] # split_on c xs
      else (case split_on c xs of
              [] \<Rightarrow> [[x]]
            | p # ps \<Rightarrow> (x # p) # ps))"

definition query_of :: "string \<Rightarrow> string" where
  "query_of url =
     drop 1 (dropWhile (\<lambda>c. c \<noteq> CHR ''?'') (takeWhile (\<lambda>c. c \<noteq> CHR ''#'') url))"

definition key_value :: "string \<Rightarrow> string \<times> string" where
  "key_value p =
     (takeWhile (\<lambda>c. c \<noteq> CHR ''='') p, drop 1 (dropWhile (\<lambda>c. c \<noteq> CHR ''='') p))"

definition query_params :: "string \<Rightarrow> (string \<times> string) list" where
  "query_params url = map key_value (split_on (CHR ''&'') (query_of url))"

text \<open>
  The block \<^verbatim>\<open>displayResults\<close> is expected to print for the endpoint with 1-based
  index \<open>k\<close>.
\<close>

definition endpoint_block :: "nat \<Rightarrow> Endpoint \<Rightarrow> string" where
  "endpoint_block k e =
     ''Endpoint '' @ fmt_d (int k) @ '':\<newline>'' @
     ''  IP Address: '' @ IpAddress e @ ''\<newline>'' @
     ''  Grade: '' @ Grade e @ ''\<newline>'' @
     ''  Status Message: '' @ Endpoint.StatusMessage e @ ''\<newline>'' @
     ''  Has Warnings: '' @ fmt_t (HasWarnings e) @ ''\<newline>'' @
     ''\<newline>''"


section \<open>Transport: the HTTP status check\<close>

lemma CheckApiStatus_rejects_status:
  assumes "client s (info_url s) w = (Inr resp, w')" and "StatusCode resp \<noteq> 200"
  shows "CheckApiStatus lib s w =
           (Inl (''API returned non-OK status: '' @ Response.Status resp), [], w')"
  using assms by (simp add: CheckApiStatus_def)

lemma StartAssessment_decodes_any_status:
  assumes "client s (start_url s domain publish) w = (Inr resp, w')"
      and "Body resp = Inr body" and "unmarshal_Host lib body = Inr host"
  shows "StartAssessment lib s domain publish w = (Inr host, w')"
  using assms by (simp add: StartAssessment_def)

lemma CheckAssessmentStatus_decodes_any_status:
  assumes "client s (check_url s domain) w = (Inr resp, w')"
      and "Body resp = Inr body" and "unmarshal_Host lib body = Inr host"
  shows "CheckAssessmentStatus lib s domain w = (Inr host, w')"
  using assms by (simp add: CheckAssessmentStatus_def)

text \<open>
  Claim C2. Every transport operation should fail with the status text when the HTTP
  status is not success. \<^verbatim>\<open>CheckApiStatus\<close> does (line 70). \<^verbatim>\<open>StartAssessment\<close> and
  \<^verbatim>\<open>CheckAssessmentStatus\<close> never look at the status: on a 429 reply whose body is the
  service's JSON error object they return the decoded (all-zero) \<^verbatim>\<open>Host\<close> as a success.
\<close>

theorem transport_status_check:
  "CheckApiStatus sample_lib (NewSSLClient scripted)
       ([http_reply 429 ''429 Too Many Requests'' errors_body], []) =
     (Inl ''API returned non-OK status: 429 Too Many Requests'', [],
      ([], [''https://api.ssllabs.com/api/v2/info'']))
   \<and> StartAssessment sample_lib (NewSSLClient scripted) ''example.com'' False
       ([http_reply 429 ''429 Too Many Requests'' errors_body], []) =
     (Inr zero_Host,
      ([], [''https://api.ssllabs.com/api/v2/analyze?host=example.com&all=done&startNew=on'']))
   \<and> CheckAssessmentStatus sample_lib (NewSSLClient scripted) ''example.com''
       ([http_reply 429 ''429 Too Many Requests'' errors_body], []) =
     (Inr zero_Host,
      ([], [''https://api.ssllabs.com/api/v2/analyze?host=example.com&all=done'']))"
  by code_simp

section \<open>The polling loop: where the index goes\<close>

text \<open>
  One pass of the progress tracking panics exactly when the cursor's index is not an
  index of the fresh snapshot; in particular on every snapshot without endpoints.
\<close>

lemma track_empty_panics:
  assumes "Endpoints host = []"
  shows "track host (i, endpoint, flg) = (Inl (IndexOutOfRange i 0), [])"
  using assms by (simp add: track_def track_block_def index_def)

lemma track_panics_iff:
  "(\<exists>p out. track host (i, endpoint, flg) = (Inl p, out)) \<longleftrightarrow> length (Endpoints host) \<le> i"
  by (auto simp: track_def track_block_def index_def Let_def
           split: sum.splits bool.splits prod.splits if_splits)

lemma track_index_bound:
  assumes "track host (i, endpoint, flg) = (Inr (i', endpoint', flg'), out)"
  shows "i < length (Endpoints host) \<and> i' < length (Endpoints host) \<and> i \<le> i' \<and> i' \<le> i + 1 \<and> flg'"
  using assms
  by (auto simp: track_def track_block_def index_def Let_def
           split: sum.splits bool.splits prod.splits if_splits)

lemma poll_loop_empty_panics:
  assumes "CheckAssessmentStatus lib s domain w = (Inr host, w')" and "Endpoints host = []"
  shows "poll_loop lib s domain (Suc fuel) (i, endpoint, flg) w =
           (Panicked (IndexOutOfRange i 0), [], w')"
  using assms by (simp add: track_empty_panics)

lemma poll_loop_returns_terminal:
  assumes "CheckAssessmentStatus lib s domain w = (Inr host, w')"
      and "Host.Status host = ''READY'' \<or> Host.Status host = ''ERROR''"
      and "track host c = (Inr c', out)"
  shows "poll_loop lib s domain (Suc fuel) c w = (Done (Inr host), out @ ''\<newline>'', w')"
  using assms by auto

text \<open>
  Claim C1. The progress tracking should never index past the end of the current
  snapshot and should keep polling when the snapshot has no endpoints. On a first poll
  that answers status DNS and no endpoints, line 150 reads \<^verbatim>\<open>host.Endpoints[0]\<close> of an
  empty slice: the run panics, and the READY reply waiting behind it is never fetched.
\<close>

theorem wait_empty_endpoints:
  "WaitForAssessment sample_lib (NewSSLClient scripted) 3 ''example.com''
       ([http_reply 200 ''200 OK'' dns_body, http_reply 200 ''200 OK'' ready_body], []) =
     (Panicked (IndexOutOfRange 0 0), ''Waiting for assessment to complete...\<newline>'',
      ([http_reply 200 ''200 OK'' ready_body],
       [''https://api.ssllabs.com/api/v2/analyze?host=example.com&all=done'']))"
  by code_simp

text \<open>
  Claim C4. Once a poll returns status READY or ERROR the loop should return that
  assessment. The status test of line 164 comes after the progress lines: when the poll
  answers ERROR for a domain that did not resolve (no endpoints), the loop panics on
  line 150 and returns nothing.
\<close>

theorem wait_terminal_empty_endpoints:
  "CheckAssessmentStatus sample_lib (NewSSLClient scripted) ''example.com''
       ([http_reply 200 ''200 OK'' error_body], []) =
     (Inr error_host, ([], [''https://api.ssllabs.com/api/v2/analyze?host=example.com&all=done'']))
   \<and> Host.Status error_host = ''ERROR''
   \<and> WaitForAssessment sample_lib (NewSSLClient scripted) 3 ''example.com''
       ([http_reply 200 ''200 OK'' error_body], []) =
     (Panicked (IndexOutOfRange 0 0), ''Waiting for assessment to complete...\<newline>'',
      ([], [''https://api.ssllabs.com/api/v2/analyze?host=example.com&all=done'']))"
  by code_simp

section \<open>The orchestrator, branch by branch\<close>

lemma main_help:
  assumes "help \<or> domain = []"
  shows "main lib http fuel domain publish help w =
           (Done 0, ''SSL Labs API Checker\<newline>Usage:\<newline>'', w)"
  using assms by (simp add: main_def)

lemma main_info_error:
  assumes "\<not> help" "domain \<noteq> []"
      and "CheckApiStatus lib (NewSSLClient http) w = (Inl err, o1, w1)"
  shows "main lib http fuel domain publish help w = (Done 1, o1 @ ''Error: '' @ err @ ''\<newline>'', w1)"
  using assms by (simp add: main_def)

lemma main_capacity:
  assumes "\<not> help" "domain \<noteq> []"
      and "CheckApiStatus lib (NewSSLClient http) w = (Inr info, o1, w1)"
      and "MaxAssessments info \<le> CurrentAssessments info"
  shows "main lib http fuel domain publish help w =
           (Done 1,
            o1 @ ''Maximum number of concurrent assessments reached. Please try again later.\<newline>'',
            w1)"
  using assms by (simp add: main_def)

lemma main_start_error:
  assumes "\<not> help" "domain \<noteq> []"
      and "CheckApiStatus lib (NewSSLClient http) w = (Inr info, o1, w1)"
      and "CurrentAssessments info < MaxAssessments info"
      and "StartAssessment lib (NewSSLClient http) domain publish w1 = (Inl err, w2)"
  shows "main lib http fuel domain publish help w =
           (Done 1,
            o1 @ ''Checking SSL/TLS for domain: '' @ domain @ ''\<newline>'' @
            ''Starting Assessment ....\<newline>'' @
            ''Error starting assessment: '' @ err @ ''\<newline>'', w2)"
  using assms by (simp add: main_def)

lemma main_start_terminal:
  assumes "\<not> help" "domain \<noteq> []"
      and "CheckApiStatus lib (NewSSLClient http) w = (Inr info, o1, w1)"
      and "CurrentAssessments info < MaxAssessments info"
      and "StartAssessment lib (NewSSLClient http) domain publish w1 = (Inr host, w2)"
      and "Host.Status host = ''READY'' \<or> Host.Status host = ''ERROR''"
  shows "main lib http fuel domain publish help w =
           (Done 0,
            o1 @ ''Checking SSL/TLS for domain: '' @ domain @ ''\<newline>'' @
            ''Starting Assessment ....\<newline>'' @
            ''Assessment started for '' @ Host host @ ''\<newline>'' @
            displayResults lib host, w2)"
  using assms by (auto simp: main_def)

lemma main_wait:
  assumes "\<not> help" "domain \<noteq> []"
      and "CheckApiStatus lib (NewSSLClient http) w = (Inr info, o1, w1)"
      and "CurrentAssessments info < MaxAssessments info"
      and "StartAssessment lib (NewSSLClient http) domain publish w1 = (Inr host, w2)"
      and "Host.Status host \<noteq> ''READY''" "Host.Status host \<noteq> ''ERROR''"
      and "WaitForAssessment lib (NewSSLClient http) fuel domain w2 = (r, o4, w3)"
  shows "main lib http fuel domain publish help w =
           (case r of
              Done (Inl err) \<Rightarrow> Done 1
            | Done (Inr host') \<Rightarrow> Done 0
            | Panicked p \<Rightarrow> Panicked p
            | Unfinished \<Rightarrow> Unfinished,
            o1 @ ''Checking SSL/TLS for domain: '' @ domain @ ''\<newline>'' @
            ''Starting Assessment ....\<newline>'' @
            ''Assessment started for '' @ Host host @ ''\<newline>'' @ o4 @
            (case r of
               Done (Inl err) \<Rightarrow> ''Error waiting for assessment: '' @ err @ ''\<newline>''
             | Done (Inr host') \<Rightarrow> displayResults lib host'
             | _ \<Rightarrow> []),
            w3)"
  using assms by (simp add: main_def split: outcome.splits sum.splits)

lemma CheckApiStatus_world:
  "snd (snd (CheckApiStatus lib s w)) = snd (client s (info_url s) w)"
  by (simp add: CheckApiStatus_def split: prod.splits sum.splits)

lemma StartAssessment_world:
  "snd (StartAssessment lib s domain publish w) = snd (client s (start_url s domain publish) w)"
  by (simp add: StartAssessment_def split: prod.splits sum.splits)

lemma CheckAssessmentStatus_world:
  "snd (CheckAssessmentStatus lib s domain w) = snd (client s (check_url s domain) w)"
  by (simp add: CheckAssessmentStatus_def split: prod.splits sum.splits)

lemma poll_loop_Done_terminal:
  assumes "poll_loop lib s domain fuel c w = (Done (Inr host), out, w')"
  shows "Host.Status host = ''READY'' \<or> Host.Status host = ''ERROR''"
  using assms
proof (induction fuel arbitrary: c w out)
  case 0
  then show ?case by simp
next
  case (Suc fuel)
  then show ?case
    by (auto split: prod.splits sum.splits if_splits)
qed

text \<open>
  Claim C3. Whenever the service info reports at least as many current assessments as
  allowed, \<^verbatim>\<open>main\<close> exits with code 1 after the capacity message, and the world it leaves
  is the one right after the single GET of \<^verbatim>\<open>/info\<close>: no start request is made.
\<close>

theorem capacity_exceeded_aborts:
  assumes "\<not> help" and "domain \<noteq> []"
      and "CheckApiStatus lib (NewSSLClient http) w = (Inr info, o1, w1)"
      and "MaxAssessments info \<le> CurrentAssessments info"
  shows "main lib http fuel domain publish help w =
           (Done 1,
            o1 @ ''Maximum number of concurrent assessments reached. Please try again later.\<newline>'',
            w1)
         \<and> w1 = snd (http ''https://api.ssllabs.com/api/v2/info'' w)"
proof
  show "main lib http fuel domain publish help w =
           (Done 1,
            o1 @ ''Maximum number of concurrent assessments reached. Please try again later.\<newline>'',
            w1)"
    using assms by (rule main_capacity)
next
  have "snd (snd (CheckApiStatus lib (NewSSLClient http) w)) =
          snd (client (NewSSLClient http) (info_url (NewSSLClient http)) w)"
    by (rule CheckApiStatus_world)
  with assms(3) show "w1 = snd (http ''https://api.ssllabs.com/api/v2/info'' w)"
    by (simp add: NewSSLClient_def info_url_def)
qed

theorem capacity_exceeded_aborts_witness:
  "MaxAssessments (info_of 20 20) \<le> CurrentAssessments (info_of 20 20)
   \<and> main sample_lib scripted 3 ''example.com'' False False
       ([http_reply 200 ''200 OK'' (info_body 20 20), http_reply 200 ''200 OK'' ready_body], []) =
     (Done 1,
      ''SSL Labs API is reachable.\<newline>Criteria Version: 2009q\<newline>Concurrent assessments allowed: 20\<newline>Current assessments: 20\<newline>Maximum number of concurrent assessments reached. Please try again later.\<newline>'',
      ([http_reply 200 ''200 OK'' ready_body], [''https://api.ssllabs.com/api/v2/info'']))"
proof -
  have h: "CheckApiStatus sample_lib (NewSSLClient scripted)
             ([http_reply 200 ''200 OK'' (info_body 20 20), http_reply 200 ''200 OK'' ready_body], []) =
           (Inr (info_of 20 20),
            ''SSL Labs API is reachable.\<newline>Criteria Version: 2009q\<newline>Concurrent assessments allowed: 20\<newline>Current assessments: 20\<newline>'',
            ([http_reply 200 ''200 OK'' ready_body], [''https://api.ssllabs.com/api/v2/info'']))"
    by code_simp
  have c: "MaxAssessments (info_of 20 20) \<le> CurrentAssessments (info_of 20 20)"
    by (simp add: info_of_def)
  have d: "''example.com'' \<noteq> []" and e: "\<not> False"
    by simp_all
  from capacity_exceeded_aborts [OF e d h c, of 3 False] c show ?thesis
    by simp
qed

text \<open>
  Claim C6. When the assessment returned by \<^verbatim>\<open>StartAssessment\<close> already has status READY
  or ERROR, \<^verbatim>\<open>main\<close> renders it directly and the world it leaves is the one right after
  the start request: no poll is made. Otherwise \<^verbatim>\<open>main\<close> runs \<^verbatim>\<open>WaitForAssessment\<close> from
  that world, and renders the assessment the wait returns, after the wait's own output.
\<close>

theorem start_terminal_skips_polling:
  assumes "\<not> help" and "domain \<noteq> []"
      and "CheckApiStatus lib (NewSSLClient http) w = (Inr info, o1, w1)"
      and "CurrentAssessments info < MaxAssessments info"
      and "StartAssessment lib (NewSSLClient http) domain publish w1 = (Inr host, w2)"
  shows "(Host.Status host = ''READY'' \<or> Host.Status host = ''ERROR'' \<longrightarrow>
            main lib http fuel domain publish help w =
              (Done 0,
               o1 @ ''Checking SSL/TLS for domain: '' @ domain @ ''\<newline>'' @
               ''Starting Assessment ....\<newline>'' @
               ''Assessment started for '' @ Host host @ ''\<newline>'' @
               displayResults lib host, w2))
       \<and> (Host.Status host \<noteq> ''READY'' \<and> Host.Status host \<noteq> ''ERROR'' \<longrightarrow>
            main lib http fuel domain publish help w =
              (case WaitForAssessment lib (NewSSLClient http) fuel domain w2 of
                 (Done (Inr host'), o4, w3) \<Rightarrow>
                   (Done 0,
                    o1 @ ''Checking SSL/TLS for domain: '' @ domain @ ''\<newline>'' @
                    ''Starting Assessment ....\<newline>'' @
                    ''Assessment started for '' @ Host host @ ''\<newline>'' @ o4 @
                    displayResults lib host', w3)
               | (Done (Inl err), o4, w3) \<Rightarrow>
                   (Done 1,
                    o1 @ ''Checking SSL/TLS for domain: '' @ domain @ ''\<newline>'' @
                    ''Starting Assessment ....\<newline>'' @
                    ''Assessment started for '' @ Host host @ ''\<newline>'' @ o4 @
                    ''Error waiting for assessment: '' @ err @ ''\<newline>'', w3)
               | (Panicked p, o4, w3) \<Rightarrow>
                   (Panicked p,
                    o1 @ ''Checking SSL/TLS for domain: '' @ domain @ ''\<newline>'' @
                    ''Starting Assessment ....\<newline>'' @
                    ''Assessment started for '' @ Host host @ ''\<newline>'' @ o4, w3)
               | (Unfinished, o4, w3) \<Rightarrow>
                   (Unfinished,
                    o1 @ ''Checking SSL/TLS for domain: '' @ domain @ ''\<newline>'' @
                    ''Starting Assessment ....\<newline>'' @
                    ''Assessment started for '' @ Host host @ ''\<newline>'' @ o4, w3)))"
proof (intro conjI impI)
  assume "Host.Status host = ''READY'' \<or> Host.Status host = ''ERROR''"
  with assms show "main lib http fuel domain publish help w =
              (Done 0,
               o1 @ ''Checking SSL/TLS for domain: '' @ domain @ ''\<newline>'' @
               ''Starting Assessment ....\<newline>'' @
               ''Assessment started for '' @ Host host @ ''\<newline>'' @
               displayResults lib host, w2)"
    by (rule main_start_terminal)
next
  assume nt: "Host.Status host \<noteq> ''READY'' \<and> Host.Status host \<noteq> ''ERROR''"
  obtain r o4 w3 where wt: "WaitForAssessment lib (NewSSLClient http) fuel domain w2 = (r, o4, w3)"
    by (cases "WaitForAssessment lib (NewSSLClient http) fuel domain w2") auto
  from main_wait [OF assms(1-5) _ _ wt] nt
  show "main lib http fuel domain publish help w =
              (case WaitForAssessment lib (NewSSLClient http) fuel domain w2 of
                 (Done (Inr host'), o4, w3) \<Rightarrow>
                   (Done 0,
                    o1 @ ''Checking SSL/TLS for domain: '' @ domain @ ''\<newline>'' @
                    ''Starting Assessment ....\<newline>'' @
                    ''Assessment started for '' @ Host host @ ''\<newline>'' @ o4 @
                    displayResults lib host', w3)
               | (Done (Inl err), o4, w3) \<Rightarrow>
                   (Done 1,
                    o1 @ ''Checking SSL/TLS for domain: '' @ domain @ ''\<newline>'' @
                    ''Starting Assessment ....\<newline>'' @
                    ''Assessment started for '' @ Host host @ ''\<newline>'' @ o4 @
                    ''Error waiting for assessment: '' @ err @ ''\<newline>'', w3)
               | (Panicked p, o4, w3) \<Rightarrow>
                   (Panicked p,
                    o1 @ ''Checking SSL/TLS for domain: '' @ domain @ ''\<newline>'' @
                    ''Starting Assessment ....\<newline>'' @
                    ''Assessment started for '' @ Host host @ ''\<newline>'' @ o4, w3)
               | (Unfinished, o4, w3) \<Rightarrow>
                   (Unfinished,
                    o1 @ ''Checking SSL/TLS for domain: '' @ domain @ ''\<newline>'' @
                    ''Starting Assessment ....\<newline>'' @
                    ''Assessment started for '' @ Host host @ ''\<newline>'' @ o4, w3))"
    by (simp add: wt split: outcome.splits sum.splits)
qed


theorem start_terminal_skips_polling_witness:
  "Host.Status ready_host = ''READY''
   \<and> main sample_lib scripted 3 ''example.com'' False False
       ([http_reply 200 ''200 OK'' (info_body 25 0), http_reply 200 ''200 OK'' ready_body,
         http_reply 200 ''200 OK'' ready_body], []) =
     (Done 0,
      ''SSL Labs API is reachable.\<newline>Criteria Version: 2009q\<newline>Concurrent assessments allowed: 25\<newline>Current assessments: 0\<newline>Checking SSL/TLS for domain: example.com\<newline>Starting Assessment ....\<newline>Assessment started for example.com\<newline>'' @
      displayResults sample_lib ready_host,
      ([http_reply 200 ''200 OK'' ready_body],
       [''https://api.ssllabs.com/api/v2/info'',
        ''https://api.ssllabs.com/api/v2/analyze?host=example.com&all=done&startNew=on'']))
   \<and> Host.Status running_host \<noteq> ''READY'' \<and> Host.Status running_host \<noteq> ''ERROR''
   \<and> main sample_lib scripted 3 ''example.com'' False False
       ([http_reply 200 ''200 OK'' (info_body 25 0), http_reply 200 ''200 OK'' running_body,
         http_reply 200 ''200 OK'' ready_body], []) =
     (Done 0,
      ''SSL Labs API is reachable.\<newline>Criteria Version: 2009q\<newline>Concurrent assessments allowed: 25\<newline>Current assessments: 0\<newline>Checking SSL/TLS for domain: example.com\<newline>Starting Assessment ....\<newline>Assessment started for example.com\<newline>Waiting for assessment to complete...\<newline>      93.184.216.34:443 - 100%\<newline>\<newline>----- PROGRESS ON ENDPOINT 1 ----- \<newline>      93.184.216.34:443 - 100%\<newline>\<newline>'' @
      displayResults sample_lib ready_host,
      ([],
       [''https://api.ssllabs.com/api/v2/info'',
        ''https://api.ssllabs.com/api/v2/analyze?host=example.com&all=done&startNew=on'',
        ''https://api.ssllabs.com/api/v2/analyze?host=example.com&all=done'']))"
proof -
  have nh: "\<not> False" and dom: "''example.com'' \<noteq> []"
    by simp_all
  have cap: "CurrentAssessments (info_of 25 0) < MaxAssessments (info_of 25 0)"
    by (simp add: info_of_def)
  have st1: "Host.Status ready_host = ''READY''"
    by (simp add: ready_host_def zero_Host_def)
  have st2: "Host.Status running_host \<noteq> ''READY'' \<and> Host.Status running_host \<noteq> ''ERROR''"
    by (simp add: running_host_def zero_Host_def)
  have hd1: "Host ready_host = ''example.com''" and hd2: "Host running_host = ''example.com''"
    by (simp_all add: ready_host_def running_host_def zero_Host_def)
  have i1: "CheckApiStatus sample_lib (NewSSLClient scripted)
              ([http_reply 200 ''200 OK'' (info_body 25 0), http_reply 200 ''200 OK'' ready_body,
                http_reply 200 ''200 OK'' ready_body], []) =
            (Inr (info_of 25 0),
             ''SSL Labs API is reachable.\<newline>Criteria Version: 2009q\<newline>Concurrent assessments allowed: 25\<newline>Current assessments: 0\<newline>'',
             ([http_reply 200 ''200 OK'' ready_body, http_reply 200 ''200 OK'' ready_body],
              [''https://api.ssllabs.com/api/v2/info'']))"
    by code_simp
  have s1: "StartAssessment sample_lib (NewSSLClient scripted) ''example.com'' False
              ([http_reply 200 ''200 OK'' ready_body, http_reply 200 ''200 OK'' ready_body],
               [''https://api.ssllabs.com/api/v2/info'']) =
            (Inr ready_host,
             ([http_reply 200 ''200 OK'' ready_body],
              [''https://api.ssllabs.com/api/v2/info'',
               ''https://api.ssllabs.com/api/v2/analyze?host=example.com&all=done&startNew=on'']))"
    by code_simp
  have i2: "CheckApiStatus sample_lib (NewSSLClient scripted)
              ([http_reply 200 ''200 OK'' (info_body 25 0), http_reply 200 ''200 OK'' running_body,
                http_reply 200 ''200 OK'' ready_body], []) =
            (Inr (info_of 25 0),
             ''SSL Labs API is reachable.\<newline>Criteria Version: 2009q\<newline>Concurrent assessments allowed: 25\<newline>Current assessments: 0\<newline>'',
             ([http_reply 200 ''200 OK'' running_body, http_reply 200 ''200 OK'' ready_body],
              [''https://api.ssllabs.com/api/v2/info'']))"
    by code_simp
  have s2: "StartAssessment sample_lib (NewSSLClient scripted) ''example.com'' False
              ([http_reply 200 ''200 OK'' running_body, http_reply 200 ''200 OK'' ready_body],
               [''https://api.ssllabs.com/api/v2/info'']) =
            (Inr running_host,
             ([http_reply 200 ''200 OK'' ready_body],
              [''https://api.ssllabs.com/api/v2/info'',
               ''https://api.ssllabs.com/api/v2/analyze?host=example.com&all=done&startNew=on'']))"
    by code_simp
  have wt: "WaitForAssessment sample_lib (NewSSLClient scripted) 3 ''example.com''
              ([http_reply 200 ''200 OK'' ready_body],
               [''https://api.ssllabs.com/api/v2/info'',
                ''https://api.ssllabs.com/api/v2/analyze?host=example.com&all=done&startNew=on'']) =
            (Done (Inr ready_host),
             ''Waiting for assessment to complete...\<newline>      93.184.216.34:443 - 100%\<newline>\<newline>----- PROGRESS ON ENDPOINT 1 ----- \<newline>      93.184.216.34:443 - 100%\<newline>\<newline>'',
             ([],
              [''https://api.ssllabs.com/api/v2/info'',
               ''https://api.ssllabs.com/api/v2/analyze?host=example.com&all=done&startNew=on'',
               ''https://api.ssllabs.com/api/v2/analyze?host=example.com&all=done'']))"
    by code_simp
  have a: "main sample_lib scripted 3 ''example.com'' False False
       ([http_reply 200 ''200 OK'' (info_body 25 0), http_reply 200 ''200 OK'' ready_body,
         http_reply 200 ''200 OK'' ready_body], []) =
     (Done 0,
      ''SSL Labs API is reachable.\<newline>Criteria Version: 2009q\<newline>Concurrent assessments allowed: 25\<newline>Current assessments: 0\<newline>Checking SSL/TLS for domain: example.com\<newline>Starting Assessment ....\<newline>Assessment started for example.com\<newline>'' @
      displayResults sample_lib ready_host,
      ([http_reply 200 ''200 OK'' ready_body],
       [''https://api.ssllabs.com/api/v2/info'',
        ''https://api.ssllabs.com/api/v2/analyze?host=example.com&all=done&startNew=on'']))"
    using start_terminal_skips_polling [OF nh dom i1 cap s1, of 3] st1
    by (simp add: hd1)
  have b: "main sample_lib scripted 3 ''example.com'' False False
       ([http_reply 200 ''200 OK'' (info_body 25 0), http_reply 200 ''200 OK'' running_body,
         http_reply 200 ''200 OK'' ready_body], []) =
     (Done 0,
      ''SSL Labs API is reachable.\<newline>Criteria Version: 2009q\<newline>Concurrent assessments allowed: 25\<newline>Current assessments: 0\<newline>Checking SSL/TLS for domain: example.com\<newline>Starting Assessment ....\<newline>Assessment started for example.com\<newline>Waiting for assessment to complete...\<newline>      93.184.216.34:443 - 100%\<newline>\<newline>----- PROGRESS ON ENDPOINT 1 ----- \<newline>      93.184.216.34:443 - 100%\<newline>\<newline>'' @
      displayResults sample_lib ready_host,
      ([],
       [''https://api.ssllabs.com/api/v2/info'',
        ''https://api.ssllabs.com/api/v2/analyze?host=example.com&all=done&startNew=on'',
        ''https://api.ssllabs.com/api/v2/analyze?host=example.com&all=done'']))"
    using start_terminal_skips_polling [OF nh dom i2 cap s2, of 3] st2
    by (simp add: hd2 wt)
  from a b st1 st2 show ?thesis
    by blast
qed

lemma WaitForAssessment_Done_terminal:
  assumes "WaitForAssessment lib s fuel domain w = (Done (Inr host), out, w')"
  shows "Host.Status host = ''READY'' \<or> Host.Status host = ''ERROR''"
proof -
  from assms obtain out' where "poll_loop lib s domain fuel (0, 1, False) w = (Done (Inr host), out', w')"
    by (auto simp: WaitForAssessment_def split: prod.splits)
  then show ?thesis
    by (rule poll_loop_Done_terminal)
qed

text \<open>
  The exit codes of the branches \<^verbatim>\<open>main\<close> itself distinguishes: 0 with the usage text
  when \<^verbatim>\<open>--help\<close> is given or the domain is empty; 1 when \<^verbatim>\<open>CheckApiStatus\<close> returns an
  error, when the capacity is used up, when \<^verbatim>\<open>StartAssessment\<close> returns an error and when
  \<^verbatim>\<open>WaitForAssessment\<close> returns an error; 0 after rendering an assessment, which then has
  status READY or ERROR.
\<close>

theorem main_exit_codes:
  "(help \<or> domain = [] \<longrightarrow>
      main lib http fuel domain publish help w =
        (Done 0, ''SSL Labs API Checker\<newline>Usage:\<newline>'', w))
   \<and> (\<not> help \<and> domain \<noteq> [] \<and>
       CheckApiStatus lib (NewSSLClient http) w = (Inl err1, o1, w1) \<longrightarrow>
      fst (main lib http fuel domain publish help w) = Done 1)
   \<and> (\<not> help \<and> domain \<noteq> [] \<and>
       CheckApiStatus lib (NewSSLClient http) w = (Inr info, o1, w1) \<and>
       MaxAssessments info \<le> CurrentAssessments info \<longrightarrow>
      fst (main lib http fuel domain publish help w) = Done 1)
   \<and> (\<not> help \<and> domain \<noteq> [] \<and>
       CheckApiStatus lib (NewSSLClient http) w = (Inr info, o1, w1) \<and>
       CurrentAssessments info < MaxAssessments info \<and>
       StartAssessment lib (NewSSLClient http) domain publish w1 = (Inl err2, w2) \<longrightarrow>
      fst (main lib http fuel domain publish help w) = Done 1)
   \<and> (\<not> help \<and> domain \<noteq> [] \<and>
       CheckApiStatus lib (NewSSLClient http) w = (Inr info, o1, w1) \<and>
       CurrentAssessments info < MaxAssessments info \<and>
       StartAssessment lib (NewSSLClient http) domain publish w1 = (Inr host, w2) \<and>
       (Host.Status host = ''READY'' \<or> Host.Status host = ''ERROR'') \<longrightarrow>
      fst (main lib http fuel domain publish help w) = Done 0 \<and>
      (\<exists>before. fst (snd (main lib http fuel domain publish help w)) =
                  before @ displayResults lib host))
   \<and> (\<not> help \<and> domain \<noteq> [] \<and>
       CheckApiStatus lib (NewSSLClient http) w = (Inr info, o1, w1) \<and>
       CurrentAssessments info < MaxAssessments info \<and>
       StartAssessment lib (NewSSLClient http) domain publish w1 = (Inr host, w2) \<and>
       Host.Status host \<noteq> ''READY'' \<and> Host.Status host \<noteq> ''ERROR'' \<and>
       WaitForAssessment lib (NewSSLClient http) fuel domain w2 = (Done (Inl err3), o4, w3) \<longrightarrow>
      fst (main lib http fuel domain publish help w) = Done 1)
   \<and> (\<not> help \<and> domain \<noteq> [] \<and>
       CheckApiStatus lib (NewSSLClient http) w = (Inr info, o1, w1) \<and>
       CurrentAssessments info < MaxAssessments info \<and>
       StartAssessment lib (NewSSLClient http) domain publish w1 = (Inr host, w2) \<and>
       Host.Status host \<noteq> ''READY'' \<and> Host.Status host \<noteq> ''ERROR'' \<and>
       WaitForAssessment lib (NewSSLClient http) fuel domain w2 = (Done (Inr host'), o4, w3) \<longrightarrow>
      fst (main lib http fuel domain publish help w) = Done 0 \<and>
      (Host.Status host' = ''READY'' \<or> Host.Status host' = ''ERROR'') \<and>
      (\<exists>before. fst (snd (main lib http fuel domain publish help w)) =
                  before @ displayResults lib host'))"
proof (intro conjI impI; (elim conjE)?)
  assume "help \<or> domain = []"
  then show "main lib http fuel domain publish help w =
        (Done 0, ''SSL Labs API Checker\<newline>Usage:\<newline>'', w)"
    by (rule main_help)
next
  assume "\<not> help" "domain \<noteq> []" "CheckApiStatus lib (NewSSLClient http) w = (Inl err1, o1, w1)"
  then show "fst (main lib http fuel domain publish help w) = Done 1"
    by (simp add: main_info_error)
next
  assume "\<not> help" "domain \<noteq> []" "CheckApiStatus lib (NewSSLClient http) w = (Inr info, o1, w1)"
    "MaxAssessments info \<le> CurrentAssessments info"
  then show "fst (main lib http fuel domain publish help w) = Done 1"
    by (simp add: main_capacity)
next
  assume "\<not> help" "domain \<noteq> []" "CheckApiStatus lib (NewSSLClient http) w = (Inr info, o1, w1)"
    "CurrentAssessments info < MaxAssessments info"
    "StartAssessment lib (NewSSLClient http) domain publish w1 = (Inl err2, w2)"
  then show "fst (main lib http fuel domain publish help w) = Done 1"
    by (simp add: main_start_error)
next
  assume a: "\<not> help" "domain \<noteq> []" "CheckApiStatus lib (NewSSLClient http) w = (Inr info, o1, w1)"
    "CurrentAssessments info < MaxAssessments info"
    "StartAssessment lib (NewSSLClient http) domain publish w1 = (Inr host, w2)"
    "Host.Status host = ''READY'' \<or> Host.Status host = ''ERROR''"
  note m = main_start_terminal [OF a, of fuel]
  show "fst (main lib http fuel domain publish help w) = Done 0"
    by (simp add: m)
  show "\<exists>before. fst (snd (main lib http fuel domain publish help w)) =
                  before @ displayResults lib host"
    unfolding m by (simp del: append_assoc add: append_assoc [symmetric])
next
  assume a: "\<not> help" "domain \<noteq> []" "CheckApiStatus lib (NewSSLClient http) w = (Inr info, o1, w1)"
    "CurrentAssessments info < MaxAssessments info"
    "StartAssessment lib (NewSSLClient http) domain publish w1 = (Inr host, w2)"
    "Host.Status host \<noteq> ''READY''" "Host.Status host \<noteq> ''ERROR''"
    "WaitForAssessment lib (NewSSLClient http) fuel domain w2 = (Done (Inl err3), o4, w3)"
  show "fst (main lib http fuel domain publish help w) = Done 1"
    by (simp add: main_wait [OF a])
next
  assume a: "\<not> help" "domain \<noteq> []" "CheckApiStatus lib (NewSSLClient http) w = (Inr info, o1, w1)"
    "CurrentAssessments info < MaxAssessments info"
    "StartAssessment lib (NewSSLClient http) domain publish w1 = (Inr host, w2)"
    "Host.Status host \<noteq> ''READY''" "Host.Status host \<noteq> ''ERROR''"
    "WaitForAssessment lib (NewSSLClient http) fuel domain w2 = (Done (Inr host'), o4, w3)"
  note m = main_wait [OF a]
  show "fst (main lib http fuel domain publish help w) = Done 0"
    by (simp add: m)
  show "Host.Status host' = ''READY'' \<or> Host.Status host' = ''ERROR''"
    using a(8) by (rule WaitForAssessment_Done_terminal)
  show "\<exists>before. fst (snd (main lib http fuel domain publish help w)) =
                  before @ displayResults lib host'"
    unfolding m by (simp del: append_assoc add: append_assoc [symmetric])
qed

theorem main_exit_codes_witness:
  "main sample_lib scripted 3 ''example.com'' False True ([], []) = (Done 0, ''SSL Labs API Checker\<newline>Usage:\<newline>'', ([], []))
   \<and> main sample_lib scripted 3 [] False False ([], []) = (Done 0, ''SSL Labs API Checker\<newline>Usage:\<newline>'', ([], []))
   \<and> fst (main sample_lib scripted 3 ''example.com'' False False ([Inl ''connection refused''], [])) = Done 1
   \<and> fst (main sample_lib scripted 3 ''example.com'' False False ([http_reply 200 ''200 OK'' (info_body 20 20)], [])) = Done 1
   \<and> fst (main sample_lib scripted 3 ''example.com'' False False ([http_reply 200 ''200 OK'' (info_body 25 0), Inl ''EOF''], [])) = Done 1
   \<and> fst (main sample_lib scripted 3 ''example.com'' False False ([http_reply 200 ''200 OK'' (info_body 25 0), http_reply 200 ''200 OK'' error_body], [])) = Done 0
   \<and> fst (main sample_lib scripted 3 ''example.com'' False False ([http_reply 200 ''200 OK'' (info_body 25 0), http_reply 200 ''200 OK'' running_body, Inl ''EOF''], [])) = Done 1
   \<and> fst (main sample_lib scripted 3 ''example.com'' False False ([http_reply 200 ''200 OK'' (info_body 25 0), http_reply 200 ''200 OK'' running_body, http_reply 200 ''200 OK'' ready_body], [])) = Done 0"
proof -
  have nh: "\<not> False" and dom: "''example.com'' \<noteq> []"
    by simp_all
  have cap: "CurrentAssessments (info_of 25 0) < MaxAssessments (info_of 25 0)"
    and full: "MaxAssessments (info_of 20 20) \<le> CurrentAssessments (info_of 20 20)"
    by (simp_all add: info_of_def)
  have fin: "Host.Status error_host = ''READY'' \<or> Host.Status error_host = ''ERROR''"
    by (simp add: error_host_def zero_Host_def)
  have run1: "Host.Status running_host \<noteq> ''READY''" and run2: "Host.Status running_host \<noteq> ''ERROR''"
    by (simp_all add: running_host_def zero_Host_def)
  have c_ref: "CheckApiStatus sample_lib (NewSSLClient scripted) ([Inl ''connection refused''], []) =
      (Inl ''failed to reach SSL Labs API: connection refused'', [], ([], [''https://api.ssllabs.com/api/v2/info'']))"
    by code_simp
  have c_full: "CheckApiStatus sample_lib (NewSSLClient scripted) ([http_reply 200 ''200 OK'' (info_body 20 20)], []) =
      (Inr (info_of 20 20), ''SSL Labs API is reachable.\<newline>Criteria Version: 2009q\<newline>Concurrent assessments allowed: 20\<newline>Current assessments: 20\<newline>'', ([], [''https://api.ssllabs.com/api/v2/info'']))"
    by code_simp
  have c_eof: "CheckApiStatus sample_lib (NewSSLClient scripted) ([http_reply 200 ''200 OK'' (info_body 25 0), Inl ''EOF''], []) =
      (Inr (info_of 25 0), ''SSL Labs API is reachable.\<newline>Criteria Version: 2009q\<newline>Concurrent assessments allowed: 25\<newline>Current assessments: 0\<newline>'', ([Inl ''EOF''], [''https://api.ssllabs.com/api/v2/info'']))"
    by code_simp
  have s_eof: "StartAssessment sample_lib (NewSSLClient scripted) ''example.com'' False ([Inl ''EOF''], [''https://api.ssllabs.com/api/v2/info'']) =
      (Inl ''failed to start assessment: EOF'', ([], [''https://api.ssllabs.com/api/v2/info'', ''https://api.ssllabs.com/api/v2/analyze?host=example.com&all=done&startNew=on'']))"
    by code_simp
  have c_err: "CheckApiStatus sample_lib (NewSSLClient scripted) ([http_reply 200 ''200 OK'' (info_body 25 0), http_reply 200 ''200 OK'' error_body], []) =
      (Inr (info_of 25 0), ''SSL Labs API is reachable.\<newline>Criteria Version: 2009q\<newline>Concurrent assessments allowed: 25\<newline>Current assessments: 0\<newline>'', ([http_reply 200 ''200 OK'' error_body], [''https://api.ssllabs.com/api/v2/info'']))"
    by code_simp
  have s_err: "StartAssessment sample_lib (NewSSLClient scripted) ''example.com'' False ([http_reply 200 ''200 OK'' error_body], [''https://api.ssllabs.com/api/v2/info'']) =
      (Inr error_host, ([], [''https://api.ssllabs.com/api/v2/info'', ''https://api.ssllabs.com/api/v2/analyze?host=example.com&all=done&startNew=on'']))"
    by code_simp
  have c_run_eof: "CheckApiStatus sample_lib (NewSSLClient scripted) ([http_reply 200 ''200 OK'' (info_body 25 0), http_reply 200 ''200 OK'' running_body, Inl ''EOF''], []) =
      (Inr (info_of 25 0), ''SSL Labs API is reachable.\<newline>Criteria Version: 2009q\<newline>Concurrent assessments allowed: 25\<newline>Current assessments: 0\<newline>'', ([http_reply 200 ''200 OK'' running_body, Inl ''EOF''], [''https://api.ssllabs.com/api/v2/info'']))"
    by code_simp
  have s_run_eof: "StartAssessment sample_lib (NewSSLClient scripted) ''example.com'' False ([http_reply 200 ''200 OK'' running_body, Inl ''EOF''], [''https://api.ssllabs.com/api/v2/info'']) =
      (Inr running_host, ([Inl ''EOF''], [''https://api.ssllabs.com/api/v2/info'', ''https://api.ssllabs.com/api/v2/analyze?host=example.com&all=done&startNew=on'']))"
    by code_simp
  have w_eof: "WaitForAssessment sample_lib (NewSSLClient scripted) 3 ''example.com'' ([Inl ''EOF''], [''https://api.ssllabs.com/api/v2/info'', ''https://api.ssllabs.com/api/v2/analyze?host=example.com&all=done&startNew=on'']) =
      (Done (Inl ''failed to check assessment status: failed to check assessment status: EOF''), ''Waiting for assessment to complete...\<newline>'', ([], [''https://api.ssllabs.com/api/v2/info'', ''https://api.ssllabs.com/api/v2/analyze?host=example.com&all=done&startNew=on'', ''https://api.ssllabs.com/api/v2/analyze?host=example.com&all=done'']))"
    by code_simp
  have c_run_rdy: "CheckApiStatus sample_lib (NewSSLClient scripted) ([http_reply 200 ''200 OK'' (info_body 25 0), http_reply 200 ''200 OK'' running_body, http_reply 200 ''200 OK'' ready_body], []) =
      (Inr (info_of 25 0), ''SSL Labs API is reachable.\<newline>Criteria Version: 2009q\<newline>Concurrent assessments allowed: 25\<newline>Current assessments: 0\<newline>'', ([http_reply 200 ''200 OK'' running_body, http_reply 200 ''200 OK'' ready_body], [''https://api.ssllabs.com/api/v2/info'']))"
    by code_simp
  have s_run_rdy: "StartAssessment sample_lib (NewSSLClient scripted) ''example.com'' False ([http_reply 200 ''200 OK'' running_body, http_reply 200 ''200 OK'' ready_body], [''https://api.ssllabs.com/api/v2/info'']) =
      (Inr running_host, ([http_reply 200 ''200 OK'' ready_body], [''https://api.ssllabs.com/api/v2/info'', ''https://api.ssllabs.com/api/v2/analyze?host=example.com&all=done&startNew=on'']))"
    by code_simp
  have w_rdy: "WaitForAssessment sample_lib (NewSSLClient scripted) 3 ''example.com'' ([http_reply 200 ''200 OK'' ready_body], [''https://api.ssllabs.com/api/v2/info'', ''https://api.ssllabs.com/api/v2/analyze?host=example.com&all=done&startNew=on'']) =
      (Done (Inr ready_host), ''Waiting for assessment to complete...\<newline>      93.184.216.34:443 - 100%\<newline>\<newline>----- PROGRESS ON ENDPOINT 1 ----- \<newline>      93.184.216.34:443 - 100%\<newline>\<newline>'', ([], [''https://api.ssllabs.com/api/v2/info'', ''https://api.ssllabs.com/api/v2/analyze?host=example.com&all=done&startNew=on'', ''https://api.ssllabs.com/api/v2/analyze?host=example.com&all=done'']))"
    by code_simp
  have g1: "main sample_lib scripted 3 ''example.com'' False True ([], []) = (Done 0, ''SSL Labs API Checker\<newline>Usage:\<newline>'', ([], []))"
    using main_exit_codes [of True "''example.com''" sample_lib scripted 3 False "([], [])"]
    by simp
  have g2: "main sample_lib scripted 3 [] False False ([], []) = (Done 0, ''SSL Labs API Checker\<newline>Usage:\<newline>'', ([], []))"
    using main_exit_codes [of False "[]" sample_lib scripted 3 False "([], [])"]
    by simp
  have g3: "fst (main sample_lib scripted 3 ''example.com'' False False ([Inl ''connection refused''], [])) = Done 1"
    using main_exit_codes [of False "''example.com''" sample_lib scripted 3 False "([Inl ''connection refused''], [])"] nh dom c_ref
    by simp
  have g4: "fst (main sample_lib scripted 3 ''example.com'' False False ([http_reply 200 ''200 OK'' (info_body 20 20)], [])) = Done 1"
    using main_exit_codes [of False "''example.com''" sample_lib scripted 3 False "([http_reply 200 ''200 OK'' (info_body 20 20)], [])"] nh dom c_full full
    by simp
  have g5: "fst (main sample_lib scripted 3 ''example.com'' False False ([http_reply 200 ''200 OK'' (info_body 25 0), Inl ''EOF''], [])) = Done 1"
    using main_exit_codes [of False "''example.com''" sample_lib scripted 3 False "([http_reply 200 ''200 OK'' (info_body 25 0), Inl ''EOF''], [])"] nh dom c_eof cap s_eof
    by simp
  have g6: "fst (main sample_lib scripted 3 ''example.com'' False False ([http_reply 200 ''200 OK'' (info_body 25 0), http_reply 200 ''200 OK'' error_body], [])) = Done 0"
    using main_exit_codes [of False "''example.com''" sample_lib scripted 3 False "([http_reply 200 ''200 OK'' (info_body 25 0), http_reply 200 ''200 OK'' error_body], [])"] nh dom c_err cap s_err fin
    by simp
  have g7: "fst (main sample_lib scripted 3 ''example.com'' False False ([http_reply 200 ''200 OK'' (info_body 25 0), http_reply 200 ''200 OK'' running_body, Inl ''EOF''], [])) = Done 1"
    using main_exit_codes [of False "''example.com''" sample_lib scripted 3 False "([http_reply 200 ''200 OK'' (info_body 25 0), http_reply 200 ''200 OK'' running_body, Inl ''EOF''], [])"] nh dom c_run_eof cap s_run_eof run1 run2 w_eof
    by simp
  have g8: "fst (main sample_lib scripted 3 ''example.com'' False False ([http_reply 200 ''200 OK'' (info_body 25 0), http_reply 200 ''200 OK'' running_body, http_reply 200 ''200 OK'' ready_body], [])) = Done 0"
    using main_exit_codes [of False "''example.com''" sample_lib scripted 3 False "([http_reply 200 ''200 OK'' (info_body 25 0), http_reply 200 ''200 OK'' running_body, http_reply 200 ''200 OK'' ready_body], [])"] nh dom c_run_rdy cap s_run_rdy run1 run2 w_rdy
    by simp
  from g1 g2 g3 g4 g5 g6 g7 g8 show ?thesis
    by blast
qed

text \<open>
  Claim C9. The process should exit with code 1 on any operational failure, a failed
  start or poll among them. A start request that the service refuses with HTTP 429 is
  not seen as a failure (\<^verbatim>\<open>StartAssessment\<close> returns the decoded all-zero assessment), so
  \<^verbatim>\<open>main\<close> goes on to poll: when the poll is refused as well the loop indexes the empty
  endpoint list and the process dies of the panic (Go's exit code 2, not 1), and when
  the poll answers READY the process exits with code 0.
\<close>

theorem main_exit_undetected_failure:
  "StartAssessment sample_lib (NewSSLClient scripted) ''example.com'' False
       ([http_reply 429 ''429 Too Many Requests'' errors_body,
         http_reply 429 ''429 Too Many Requests'' errors_body],
        [''https://api.ssllabs.com/api/v2/info'']) =
     (Inr zero_Host,
      ([http_reply 429 ''429 Too Many Requests'' errors_body],
       [''https://api.ssllabs.com/api/v2/info'',
        ''https://api.ssllabs.com/api/v2/analyze?host=example.com&all=done&startNew=on'']))
   \<and> fst (main sample_lib scripted 3 ''example.com'' False False
       ([http_reply 200 ''200 OK'' (info_body 25 0),
         http_reply 429 ''429 Too Many Requests'' errors_body,
         http_reply 429 ''429 Too Many Requests'' errors_body], [])) =
     Panicked (IndexOutOfRange 0 0)
   \<and> fst (main sample_lib scripted 3 ''example.com'' False False
       ([http_reply 200 ''200 OK'' (info_body 25 0),
         http_reply 429 ''429 Too Many Requests'' errors_body,
         http_reply 200 ''200 OK'' ready_body], [])) =
     Done 0"
  by code_simp

section \<open>The renderer\<close>

lemma display_endpoints_blocks:
  "display_endpoints i es = concat (map (\<lambda>(k, e). endpoint_block k e) (enumerate (Suc i) es))"
proof (induction es arbitrary: i)
  case Nil
  show ?case by simp
next
  case (Cons e es)
  show ?case
    by (simp add: Cons.IH endpoint_block_def add.commute)
qed

lemma sdiv_1000_nonneg:
  "0 \<le> t \<Longrightarrow> (t::int) sdiv 1000 = t div 1000"
  by (simp add: signed_divide_int_def sgn_if)

text \<open>
  Claim C8. For an assessment of status READY \<^verbatim>\<open>displayResults\<close> prints the title, the
  domain, the status, the completion time (\<^verbatim>\<open>TestTime\<close> in milliseconds divided by 1000,
  truncating, then formatted as local time by the \<^verbatim>\<open>time\<close> package) and one block per
  endpoint, in order, numbered from 1, with IP address, grade, status message and
  warnings flag. With no endpoints it prints the four leading lines. The function is
  total: it indexes nothing and has no failing path.
\<close>

theorem displayResults_ready:
  assumes "Host.Status host = ''READY''"
  shows "displayResults lib host =
           ''Assessment Results:\<newline>'' @
           ''Domain: '' @ Host host @ ''\<newline>'' @
           ''Status: READY\<newline>'' @
           ''Test completed: '' @ format_local lib (TestTime host sdiv 1000) @ ''\<newline>'' @
           concat (map (\<lambda>(k, e). endpoint_block k e) (enumerate 1 (Endpoints host)))
         \<and> (Endpoints host = [] \<longrightarrow>
              displayResults lib host =
                ''Assessment Results:\<newline>'' @
                ''Domain: '' @ Host host @ ''\<newline>'' @
                ''Status: READY\<newline>'' @
                ''Test completed: '' @ format_local lib (TestTime host sdiv 1000) @ ''\<newline>'')
         \<and> (0 \<le> TestTime host \<longrightarrow> TestTime host sdiv 1000 = TestTime host div 1000)"
  using assms
  by (simp add: displayResults_def display_endpoints_blocks sdiv_1000_nonneg)

theorem displayResults_ready_witness:
  "Host.Status ready_host = ''READY''
   \<and> displayResults sample_lib ready_host =
       ''Assessment Results:\<newline>Domain: example.com\<newline>Status: READY\<newline>Test completed: epoch+1500000000s\<newline>Endpoint 1:\<newline>  IP Address: 93.184.216.34\<newline>  Grade: A\<newline>  Status Message: Ready\<newline>  Has Warnings: false\<newline>\<newline>''
   \<and> displayResults sample_lib (ready_host\<lparr>Endpoints := []\<rparr>) =
       ''Assessment Results:\<newline>Domain: example.com\<newline>Status: READY\<newline>Test completed: epoch+1500000000s\<newline>''"
proof -
  have st: "Host.Status ready_host = ''READY''"
    and st': "Host.Status (ready_host\<lparr>Endpoints := []\<rparr>) = ''READY''"
    by (simp_all add: ready_host_def zero_Host_def)
  have e1: "''Assessment Results:\<newline>'' @
           ''Domain: '' @ Host ready_host @ ''\<newline>'' @
           ''Status: READY\<newline>'' @
           ''Test completed: '' @ format_local sample_lib (TestTime ready_host sdiv 1000) @ ''\<newline>'' @
           concat (map (\<lambda>(k, e). endpoint_block k e) (enumerate 1 (Endpoints ready_host))) =
       ''Assessment Results:\<newline>Domain: example.com\<newline>Status: READY\<newline>Test completed: epoch+1500000000s\<newline>Endpoint 1:\<newline>  IP Address: 93.184.216.34\<newline>  Grade: A\<newline>  Status Message: Ready\<newline>  Has Warnings: false\<newline>\<newline>''"
    by code_simp
  have e2: "''Assessment Results:\<newline>'' @
                ''Domain: '' @ Host (ready_host\<lparr>Endpoints := []\<rparr>) @ ''\<newline>'' @
                ''Status: READY\<newline>'' @
                ''Test completed: '' @
                format_local sample_lib (TestTime (ready_host\<lparr>Endpoints := []\<rparr>) sdiv 1000) @ ''\<newline>'' =
       ''Assessment Results:\<newline>Domain: example.com\<newline>Status: READY\<newline>Test completed: epoch+1500000000s\<newline>''"
    by code_simp
  from displayResults_ready [OF st, of sample_lib] e1
  have a: "displayResults sample_lib ready_host =
       ''Assessment Results:\<newline>Domain: example.com\<newline>Status: READY\<newline>Test completed: epoch+1500000000s\<newline>Endpoint 1:\<newline>  IP Address: 93.184.216.34\<newline>  Grade: A\<newline>  Status Message: Ready\<newline>  Has Warnings: false\<newline>\<newline>''"
    by simp
  from displayResults_ready [OF st', of sample_lib] e2
  have b: "displayResults sample_lib (ready_host\<lparr>Endpoints := []\<rparr>) =
       ''Assessment Results:\<newline>Domain: example.com\<newline>Status: READY\<newline>Test completed: epoch+1500000000s\<newline>''"
    by simp
  from st a b show ?thesis
    by blast
qed

text \<open>
  Claim C5, as stated, asks the renderer to fail loudly on a status other than READY and
  ERROR. The \<^verbatim>\<open>switch\<close> of line 177 has no default case and \<^verbatim>\<open>displayResults\<close> has no
  way to fail: on an assessment of status DNS it prints the three header lines and
  returns.
\<close>

theorem displayResults_dns:
  "Host.Status dns_host \<noteq> ''READY'' \<and> Host.Status dns_host \<noteq> ''ERROR''
   \<and> displayResults sample_lib dns_host =
       ''Assessment Results:\<newline>Domain: example.com\<newline>Status: DNS\<newline>''"
  by code_simp

text \<open>
  Claim C5, amended: on an assessment whose status is neither READY nor ERROR
  \<^verbatim>\<open>displayResults\<close> prints exactly the title, the domain and the status, and returns
  normally.
\<close>

theorem displayResults_other_status:
  assumes "Host.Status host \<noteq> ''READY''" and "Host.Status host \<noteq> ''ERROR''"
  shows "displayResults lib host =
           ''Assessment Results:\<newline>'' @
           ''Domain: '' @ Host host @ ''\<newline>'' @
           ''Status: '' @ Host.Status host @ ''\<newline>''"
  using assms by (simp add: displayResults_def)

theorem displayResults_other_status_witness:
  "Host.Status running_host \<noteq> ''READY'' \<and> Host.Status running_host \<noteq> ''ERROR''
   \<and> displayResults sample_lib running_host =
       ''Assessment Results:\<newline>Domain: example.com\<newline>Status: IN_PROGRESS\<newline>''"
proof -
  have a: "Host.Status running_host \<noteq> ''READY''" and b: "Host.Status running_host \<noteq> ''ERROR''"
    by (simp_all add: running_host_def zero_Host_def)
  from displayResults_other_status [OF a b, of sample_lib] a b show ?thesis
    by (simp add: running_host_def zero_Host_def)
qed

section \<open>Request URLs\<close>

lemma split_on_nonempty:
  "split_on c xs \<noteq> []"
  by (induction xs) (auto split: list.splits)

lemma split_on_append:
  "c \<notin> set xs \<Longrightarrow> split_on c (xs @ c # ys) = xs # split_on c ys"
  by (induction xs) auto

lemma split_on_pieces:
  "p \<in> set (split_on c xs) \<Longrightarrow> c \<notin> set p"
proof (induction xs arbitrary: p)
  case Nil
  then show ?case by simp
next
  case (Cons x xs)
  then show ?case
    by (cases "split_on c xs") (auto split: if_splits)
qed

lemma query_of_analyze:
  assumes "CHR ''#'' \<notin> set d" and "CHR ''#'' \<notin> set rest"
  shows "query_of (''https://api.ssllabs.com/api/v2/analyze?host='' @ d @ rest) = ''host='' @ d @ rest"
proof -
  have "takeWhile (\<lambda>c. c \<noteq> CHR ''#'') (d @ rest) = d @ rest"
    using assms by (auto simp: takeWhile_eq_all_conv)
  then show ?thesis
    by (simp add: query_of_def)
qed

lemma key_value_host:
  "key_value (''host='' @ d) = (''host'', d)"
  by (simp add: key_value_def)

lemma fixed_parameters:
  "map key_value (split_on (CHR ''&'') ''all=done&startNew=on&publish=on'') =
     [(''all'', ''done''), (''startNew'', ''on''), (''publish'', ''on'')]"
  "map key_value (split_on (CHR ''&'') ''all=done&startNew=on'') =
     [(''all'', ''done''), (''startNew'', ''on'')]"
  "map key_value (split_on (CHR ''&'') ''all=done'') = [(''all'', ''done'')]"
  by code_simp+

lemma query_params_value_no_amp:
  assumes "(k, v) \<in> set (query_params url)"
  shows "CHR ''&'' \<notin> set v"
proof -
  from assms obtain p where p: "p \<in> set (split_on (CHR ''&'') (query_of url))"
    and v: "v = drop 1 (dropWhile (\<lambda>c. c \<noteq> CHR ''='') p)"
    by (auto simp: query_params_def key_value_def)
  have "set v \<subseteq> set p"
    unfolding v using set_drop_subset [of 1 "dropWhile (\<lambda>c. c \<noteq> CHR ''='') p"]
      set_dropWhileD [of _ "\<lambda>c. c \<noteq> CHR ''=''" p] by blast
  with split_on_pieces [OF p] show ?thesis by blast
qed

lemma query_params_analyze:
  assumes "CHR ''&'' \<notin> set d" and "CHR ''#'' \<notin> set d" and "CHR ''#'' \<notin> set rest"
  shows "query_params (''https://api.ssllabs.com/api/v2/analyze?host='' @ d @ CHR ''&'' # rest) =
           (''host'', d) # map key_value (split_on (CHR ''&'') rest)"
proof -
  have amp: "CHR ''&'' \<notin> set (''host='' @ d)"
    using assms(1) by simp
  have "query_of (''https://api.ssllabs.com/api/v2/analyze?host='' @ d @ CHR ''&'' # rest) =
          (''host='' @ d) @ CHR ''&'' # rest"
    using query_of_analyze [OF assms(2), of "CHR ''&'' # rest"] assms(3) by simp
  then have "query_params (''https://api.ssllabs.com/api/v2/analyze?host='' @ d @ CHR ''&'' # rest) =
          map key_value ((''host='' @ d) # split_on (CHR ''&'') rest)"
    unfolding query_params_def by (simp only: split_on_append [OF amp])
  then show ?thesis
    by (simp only: list.map key_value_host)
qed

text \<open>
  Claim C7, as stated, speaks of every domain. The domain is spliced into the URL as it
  is, so a domain that itself contains \<open>&\<close> adds parameters of its own: for the domain
  \<^verbatim>\<open>example.com&startNew=on\<close> the poll request carries \<^verbatim>\<open>host=example.com\<close> and
  \<^verbatim>\<open>startNew=on\<close>.
\<close>

theorem poll_query_carries_startNew:
  "query_params (check_url (NewSSLClient scripted) ''example.com&startNew=on'') =
     [(''host'', ''example.com''), (''startNew'', ''on''), (''all'', ''done'')]
   \<and> query_params (check_url (NewSSLClient scripted) ''example.com&startNew=on'') \<noteq>
     [(''host'', ''example.com&startNew=on''), (''all'', ''done'')]"
  by code_simp

text \<open>
  Claim C7, amended: for every publish flag and every domain that contains neither \<open>&\<close>
  nor \<open>#\<close>, the start request carries exactly the parameters \<^verbatim>\<open>host=domain\<close>,
  \<^verbatim>\<open>all=done\<close>, \<^verbatim>\<open>startNew=on\<close>, followed by \<^verbatim>\<open>publish=on\<close> exactly when publish is set,
  and the poll request carries exactly \<^verbatim>\<open>host=domain\<close> and \<^verbatim>\<open>all=done\<close>; each operation
  makes one request, to that URL.
\<close>

theorem request_query_parameters:
  assumes "CHR ''&'' \<notin> set domain" and "CHR ''#'' \<notin> set domain"
  shows "query_params (start_url (NewSSLClient http) domain publish) =
           [(''host'', domain), (''all'', ''done''), (''startNew'', ''on'')] @
           (if publish then [(''publish'', ''on'')] else [])
       \<and> query_params (check_url (NewSSLClient http) domain) =
           [(''host'', domain), (''all'', ''done'')]
       \<and> snd (StartAssessment lib (NewSSLClient http) domain publish w) =
           snd (http (start_url (NewSSLClient http) domain publish) w)
       \<and> snd (CheckAssessmentStatus lib (NewSSLClient http) domain w) =
           snd (http (check_url (NewSSLClient http) domain) w)"
proof (intro conjI)
  have u1: "start_url (NewSSLClient http) domain True =
              ''https://api.ssllabs.com/api/v2/analyze?host='' @ domain @
              CHR ''&'' # ''all=done&startNew=on&publish=on''"
    and u2: "start_url (NewSSLClient http) domain False =
              ''https://api.ssllabs.com/api/v2/analyze?host='' @ domain @
              CHR ''&'' # ''all=done&startNew=on''"
    and u3: "check_url (NewSSLClient http) domain =
              ''https://api.ssllabs.com/api/v2/analyze?host='' @ domain @ CHR ''&'' # ''all=done''"
    by (simp_all add: start_url_def check_url_def NewSSLClient_def)
  have q1: "query_params (start_url (NewSSLClient http) domain True) =
              [(''host'', domain), (''all'', ''done''), (''startNew'', ''on''), (''publish'', ''on'')]"
    unfolding u1 by (subst query_params_analyze [OF assms]) (simp_all only: fixed_parameters, simp)
  have q2: "query_params (start_url (NewSSLClient http) domain False) =
              [(''host'', domain), (''all'', ''done''), (''startNew'', ''on'')]"
    unfolding u2 by (subst query_params_analyze [OF assms]) (simp_all only: fixed_parameters, simp)
  show "query_params (start_url (NewSSLClient http) domain publish) =
           [(''host'', domain), (''all'', ''done''), (''startNew'', ''on'')] @
           (if publish then [(''publish'', ''on'')] else [])"
    using q1 q2 by (cases publish) simp_all
  show "query_params (check_url (NewSSLClient http) domain) =
           [(''host'', domain), (''all'', ''done'')]"
    unfolding u3 by (subst query_params_analyze [OF assms]) (simp_all only: fixed_parameters, simp)
  show "snd (StartAssessment lib (NewSSLClient http) domain publish w) =
           snd (http (start_url (NewSSLClient http) domain publish) w)"
    using StartAssessment_world [of lib "NewSSLClient http" domain publish w]
    by (simp add: NewSSLClient_def)
  show "snd (CheckAssessmentStatus lib (NewSSLClient http) domain w) =
           snd (http (check_url (NewSSLClient http) domain) w)"
    using CheckAssessmentStatus_world [of lib "NewSSLClient http" domain w]
    by (simp add: NewSSLClient_def)
qed

theorem request_query_parameters_witness:
  "CHR ''&'' \<notin> set ''example.com'' \<and> CHR ''#'' \<notin> set ''example.com''
   \<and> query_params (start_url (NewSSLClient scripted) ''example.com'' True) =
       [(''host'', ''example.com''), (''all'', ''done''), (''startNew'', ''on''), (''publish'', ''on'')]
   \<and> query_params (start_url (NewSSLClient scripted) ''example.com'' False) =
       [(''host'', ''example.com''), (''all'', ''done''), (''startNew'', ''on'')]
   \<and> query_params (check_url (NewSSLClient scripted) ''example.com'') =
       [(''host'', ''example.com''), (''all'', ''done'')]"
proof -
  have a: "CHR ''&'' \<notin> set ''example.com''" and b: "CHR ''#'' \<notin> set ''example.com''"
    by simp_all
  from request_query_parameters [OF a b, of scripted True]
  have "query_params (start_url (NewSSLClient scripted) ''example.com'' True) =
       [(''host'', ''example.com''), (''all'', ''done''), (''startNew'', ''on''), (''publish'', ''on'')]"
    and "query_params (check_url (NewSSLClient scripted) ''example.com'') =
       [(''host'', ''example.com''), (''all'', ''done'')]"
    by simp_all
  moreover from request_query_parameters [OF a b, of scripted False]
  have "query_params (start_url (NewSSLClient scripted) ''example.com'' False) =
       [(''host'', ''example.com''), (''all'', ''done''), (''startNew'', ''on'')]"
    by simp
  ultimately show ?thesis
    using a b by blast
qed







end
